theory Spec2Isabelle
  imports Main "HOL-Library.Sublist"
begin

section \<open>Run inhibition hints: an embedding of package runinhibit\<close>

text \<open>
  The package keeps one hint file per snap, \<open><InhibitDir>/<snapName>.lock\<close>, and has
  three operations: \<open>LockWithHint\<close>, \<open>Unlock\<close> and \<open>IsLocked\<close>. Each is a short
  sequence of calls into the operating system. The embedding threads the file system
  through every call as an explicit state and returns Go's \<open>error\<close> as a value
  (\<open>None\<close> is \<open>nil\<close>). A run is that of one process with no other lock holder, so a
  blocking lock acquisition returns at once.
\<close>

subsection \<open>Errors\<close>

text \<open>
  Failures that the environment can impose on a system call whatever the state of the
  files is: permissions, interrupted calls, device errors, descriptor or lock
  exhaustion, a full or read-only disk, a name that is too long or holds a zero byte,
  a path component that is not a directory, a path that is a directory or a symbolic
  link. A missing path component is not among them: whether something is missing is
  decided by the file system state.
\<close>

datatype failure =
    EACCES | EINTR | EINVAL | EIO | EISDIR | ELOOP | EMFILE | ENAMETOOLONG | ENOLCK | ENOSPC
  | ENOTDIR | EROFS

datatype errno = ENOENT | EBADF | Failure failure

text \<open>
  Go error values: the result of \<open>fmt.Errorf\<close>, an \<open>*os.PathError\<close> with its
  operation, path and cause, a bare \<open>syscall.Errno\<close>, and \<open>io.EOF\<close>.
\<close>

datatype error =
    ErrorString string
  | PathError string string errno
  | Errno errno
  | EOF

text \<open>\<open>os.IsNotExist\<close>: unwraps a path error and tests the cause for \<open>ENOENT\<close>.\<close>

fun underlyingError :: "error \<Rightarrow> error" where
  "underlyingError (PathError op path en) = Errno en"
| "underlyingError err = err"

fun os_IsNotExist :: "error option \<Rightarrow> bool" where
  "os_IsNotExist None = False"
| "os_IsNotExist (Some err) = (underlyingError err = Errno ENOENT)"

subsection \<open>Paths\<close>

text \<open>
  \<open>filepath.Join\<close> and \<open>filepath.Clean\<close> of the Go library on a Unix system. A path
  is split at every slash; empty elements and \<open>.\<close> are dropped; \<open>..\<close> removes the
  element before it, is dropped at the root, and is kept at the start of a relative
  path.
\<close>

fun split_sep :: "string \<Rightarrow> string list" where
  "split_sep [] = [[]]"
| "split_sep (c # cs) =
     (if c = CHR ''/'' then [] # split_sep cs
      else (case split_sep cs of [] \<Rightarrow> [[c]] | w # ws \<Rightarrow> (c # w) # ws))"

fun join_sep :: "string list \<Rightarrow> string" where
  "join_sep [] = []"
| "join_sep [x] = x"
| "join_sep (x # y # ys) = x @ CHR ''/'' # join_sep (y # ys)"

text \<open>The second argument is the output so far, last element first.\<close>

fun clean_elems :: "bool \<Rightarrow> string list \<Rightarrow> string list \<Rightarrow> string list" where
  "clean_elems rooted out [] = rev out"
| "clean_elems rooted out (x # xs) =
     (if x = [] \<or> x = ''.'' then clean_elems rooted out xs
      else if x = ''..'' then
        (case out of
           [] \<Rightarrow> if rooted then clean_elems rooted out xs else clean_elems rooted (x # out) xs
         | y # ys \<Rightarrow> if y = ''..'' then clean_elems rooted (x # out) xs
                     else clean_elems rooted ys xs)
      else clean_elems rooted (x # out) xs)"

definition is_rooted :: "string \<Rightarrow> bool" where
  "is_rooted path = (case path of [] \<Rightarrow> False | c # cs \<Rightarrow> c = CHR ''/'')"

definition path_elems :: "string \<Rightarrow> string list" where
  "path_elems path = clean_elems (is_rooted path) [] (split_sep path)"

definition render :: "bool \<Rightarrow> string list \<Rightarrow> string" where
  "render rooted xs =
     (if rooted then CHR ''/'' # join_sep xs else if xs = [] then ''.'' else join_sep xs)"

definition filepath_Clean :: "string \<Rightarrow> string" where
  "filepath_Clean path = render (is_rooted path) (path_elems path)"

text \<open>\<open>filepath.Join\<close> of two elements: empty leading elements are ignored.\<close>

definition filepath_Join :: "string \<Rightarrow> string \<Rightarrow> string" where
  "filepath_Join a b =
     (if a \<noteq> [] then filepath_Clean (a @ CHR ''/'' # b)
      else if b \<noteq> [] then filepath_Clean b
      else [])"

text \<open>The directory that holds a path, and the directories on the way to a path.\<close>

definition parent_dir :: "string \<Rightarrow> string" where
  "parent_dir path = render (is_rooted path) (butlast (path_elems path))"

definition ancestors :: "string \<Rightarrow> string list" where
  "ancestors path = map (render (is_rooted path)) (tl (prefixes (path_elems path)))"

subsection \<open>The file system and its failures\<close>

text \<open>
  The state: the directories that exist (the root and the working directory always
  do) and the regular files with their bytes, both under their cleaned path.
\<close>

record filesystem =
  dirs :: "string set"
  files :: "string \<rightharpoonup> string"

definition is_dir :: "filesystem \<Rightarrow> string \<Rightarrow> bool" where
  "is_dir fs path = (path = ''/'' \<or> path = ''.'' \<or> path \<in> dirs fs)"

text \<open>
  What the environment does to the system calls of one operation. Each operation makes
  every kind of call at most once, so one entry per kind is enough. \<open>write_fault\<close>
  carries the number of bytes that were written before the failure; it strikes only
  when that number is less than the length of what is to be written. \<open>read_max\<close>
  bounds the number of bytes that one read transfers: a read may return fewer bytes
  than asked for without an error, as it does when the file has become shorter than
  the size \<open>Stat\<close> reported (a process that does not take the advisory lock has
  truncated it) or when the kernel cuts the transfer short.
\<close>

record faults =
  mkdir_fault :: "failure option"
  open_fault :: "failure option"
  flock_fault :: "failure option"
  truncate_fault :: "failure option"
  write_fault :: "(nat \<times> failure) option"
  stat_fault :: "failure option"
  read_fault :: "failure option"
  read_max :: "nat option"

definition no_faults :: faults where
  "no_faults = \<lparr>mkdir_fault = None, open_fault = None, flock_fault = None,
     truncate_fault = None, write_fault = None, stat_fault = None, read_fault = None,
     read_max = None\<rparr>"

definition fault_free :: "faults \<Rightarrow> bool" where
  "fault_free e \<longleftrightarrow>
     mkdir_fault e = None \<and> open_fault e = None \<and> flock_fault e = None \<and>
     truncate_fault e = None \<and> write_fault e = None \<and> stat_fault e = None \<and>
     read_fault e = None \<and> read_max e = None"

subsection \<open>The Go library: directories and open files\<close>

text \<open>
  \<open>os.MkdirAll\<close>: creates the directory and every missing parent; a directory that
  exists is left as it is. The empty path cannot be created.
\<close>

definition os_MkdirAll :: "faults \<Rightarrow> string \<Rightarrow> nat \<Rightarrow> filesystem \<Rightarrow> error option \<times> filesystem" where
  "os_MkdirAll e path perm fs =
     (case mkdir_fault e of
        Some f \<Rightarrow> (Some (PathError ''mkdir'' path (Failure f)), fs)
      | None \<Rightarrow>
          if path = [] then (Some (PathError ''mkdir'' path ENOENT), fs)
          else (None, fs\<lparr>dirs := dirs fs \<union> set (ancestors path)\<rparr>))"

text \<open>
  An open file is known by the cleaned path it was opened under; no operation here
  removes or renames a file. Each operation opens the file anew, so its one read or
  write starts at offset 0.
\<close>

datatype File = File string

fun File_Name :: "File \<Rightarrow> string" where
  "File_Name (File path) = path"

text \<open>\<open>(*os.File).Truncate\<close>: cuts the file, or extends it with zero bytes.\<close>

definition File_Truncate :: "faults \<Rightarrow> File \<Rightarrow> nat \<Rightarrow> filesystem \<Rightarrow> error option \<times> filesystem" where
  "File_Truncate e f sz fs =
     (case files fs (File_Name f) of
        None \<Rightarrow> (Some (PathError ''truncate'' (File_Name f) EBADF), fs)
      | Some content \<Rightarrow>
          (case truncate_fault e of
             Some x \<Rightarrow> (Some (PathError ''truncate'' (File_Name f) (Failure x)), fs)
           | None \<Rightarrow>
               (None, fs\<lparr>files := (files fs)(File_Name f \<mapsto>
                  take sz content @ replicate (sz - length content) (CHR 0x00))\<rparr>)))"

text \<open>
  \<open>(*os.File).WriteString\<close>: writes until every byte is out or a write fails; the
  bytes written before a failure stay in the file.
\<close>

definition write_at_start :: "string \<Rightarrow> string \<Rightarrow> string" where
  "write_at_start s content = s @ drop (length s) content"

definition File_WriteString :: "faults \<Rightarrow> File \<Rightarrow> string \<Rightarrow> filesystem \<Rightarrow> (nat \<times> error option) \<times> filesystem" where
  "File_WriteString e f s fs =
     (case files fs (File_Name f) of
        None \<Rightarrow> ((0, Some (PathError ''write'' (File_Name f) EBADF)), fs)
      | Some content \<Rightarrow>
          (case write_fault e of
             Some (k, x) \<Rightarrow>
               if k < length s
               then ((k, Some (PathError ''write'' (File_Name f) (Failure x))),
                     fs\<lparr>files := (files fs)(File_Name f \<mapsto> write_at_start (take k s) content)\<rparr>)
               else ((length s, None),
                     fs\<lparr>files := (files fs)(File_Name f \<mapsto> write_at_start s content)\<rparr>)
           | None \<Rightarrow>
               ((length s, None),
                fs\<lparr>files := (files fs)(File_Name f \<mapsto> write_at_start s content)\<rparr>)))"

text \<open>\<open>(*os.File).Stat\<close>, of which the operations use the size only.\<close>

definition File_Stat :: "faults \<Rightarrow> File \<Rightarrow> filesystem \<Rightarrow> error + nat" where
  "File_Stat e f fs =
     (case files fs (File_Name f) of
        None \<Rightarrow> Inl (PathError ''stat'' (File_Name f) EBADF)
      | Some content \<Rightarrow>
          (case stat_fault e of
             Some x \<Rightarrow> Inl (PathError ''stat'' (File_Name f) (Failure x))
           | None \<Rightarrow> Inr (length content)))"

text \<open>
  \<open>(*os.File).Read\<close>: one read system call into the buffer. It returns the number of
  bytes read and the buffer; a failed call reads nothing; a call that reads nothing
  into a non-empty buffer is \<open>io.EOF\<close>.
\<close>

definition File_Read :: "faults \<Rightarrow> File \<Rightarrow> string \<Rightarrow> filesystem \<Rightarrow> (nat \<times> error option) \<times> string" where
  "File_Read e f buf fs =
     (case files fs (File_Name f) of
        None \<Rightarrow> ((0, Some (PathError ''read'' (File_Name f) EBADF)), buf)
      | Some content \<Rightarrow>
          (case read_fault e of
             Some x \<Rightarrow> ((0, Some (PathError ''read'' (File_Name f) (Failure x))), buf)
           | None \<Rightarrow>
               if length buf = 0 then ((0, None), buf)
               else
                 let avail = (case read_max e of None \<Rightarrow> length content
                              | Some m \<Rightarrow> min m (length content));
                     n = min (length buf) avail
                 in if n = 0 then ((0, Some EOF), buf)
                    else ((n, None), take n content @ drop n buf)))"

subsection \<open>The lock primitive of package osutil\<close>

text \<open>
  Modelled from the spec: \<open>osutil.FileLock\<close>, whose source is not part of the files at
  hand. The spec describes it as the file lock primitive that "exposes, per path:
  open-or-create returning a lock handle; \<open>Lock()\<close> (exclusive, blocking);
  \<open>ReadLock()\<close> (shared, blocking); \<open>Close()\<close> (releases any held lock and the
  handle); access to the underlying open file".
\<close>

datatype FileLock = FileLock File

text \<open>
  Modelled from the spec: \<open>osutil.NewFileLockWithMode\<close>, the open-or-create of the
  lock primitive. A file that exists is opened. A file that is missing is created
  empty when its directory exists; when the directory is missing too, the open fails
  with \<open>ENOENT\<close>.
\<close>

definition osutil_NewFileLockWithMode :: "faults \<Rightarrow> string \<Rightarrow> nat \<Rightarrow> filesystem \<Rightarrow> (error + FileLock) \<times> filesystem" where
  "osutil_NewFileLockWithMode e path mode fs =
     (case open_fault e of
        Some x \<Rightarrow> (Inl (PathError ''open'' path (Failure x)), fs)
      | None \<Rightarrow>
          let p = filepath_Clean path in
          (case files fs p of
             Some content \<Rightarrow> (Inr (FileLock (File p)), fs)
           | None \<Rightarrow>
               if is_dir fs (parent_dir p)
               then (Inr (FileLock (File p)), fs\<lparr>files := (files fs)(p \<mapsto> [])\<rparr>)
               else (Inl (PathError ''open'' path ENOENT), fs)))"

text \<open>
  Modelled from the spec: \<open>Lock\<close> and \<open>ReadLock\<close> of \<open>osutil.FileLock\<close>. With no
  other holder, either lock is granted unless the system call fails.
\<close>

definition FileLock_Lock :: "faults \<Rightarrow> FileLock \<Rightarrow> error option" where
  "FileLock_Lock e flock = (case flock_fault e of Some x \<Rightarrow> Some (Errno (Failure x)) | None \<Rightarrow> None)"

definition FileLock_ReadLock :: "faults \<Rightarrow> FileLock \<Rightarrow> error option" where
  "FileLock_ReadLock e flock = (case flock_fault e of Some x \<Rightarrow> Some (Errno (Failure x)) | None \<Rightarrow> None)"

text \<open>Modelled from the spec: \<open>File\<close> of \<open>osutil.FileLock\<close>, the open file of the handle.\<close>

fun FileLock_File :: "FileLock \<Rightarrow> File" where
  "FileLock_File (FileLock f) = f"

text \<open>
  Modelled from the spec: \<open>Close\<close> of \<open>osutil.FileLock\<close>. It gives up the lock and
  the descriptor; the files stay as they are.
\<close>

definition FileLock_Close :: "FileLock \<Rightarrow> filesystem \<Rightarrow> filesystem" where
  "FileLock_Close flock fs = fs"

subsection \<open>Package runinhibit\<close>

definition defaultInhibitDir :: string where
  "defaultInhibitDir = ''/var/lib/snapd/inhibit''"

text \<open>
  \<open>InhibitDir\<close> is a package variable; the operations take its value as their second
  argument. This is the callback that \<open>init\<close> registers for a change of the root.
\<close>

definition rootDirCallback :: "string \<Rightarrow> string" where
  "rootDirCallback root = filepath_Join root defaultInhibitDir"

type_synonym Hint = string

definition HintNotInhibited :: Hint where
  "HintNotInhibited = []"

definition HintInhibitedForRefresh :: Hint where
  "HintInhibitedForRefresh = ''refresh''"

definition openHintFile :: "faults \<Rightarrow> string \<Rightarrow> string \<Rightarrow> filesystem \<Rightarrow> (error + FileLock) \<times> filesystem" where
  "openHintFile e InhibitDir snapName fs =
     (let fname = filepath_Join InhibitDir (snapName @ ''.lock'')
      in osutil_NewFileLockWithMode e fname 420 fs)"

text \<open>The \<open>err\<close> of a Go result pair.\<close>

fun err_of :: "error + 'a \<Rightarrow> error option" where
  "err_of (Inl err) = Some err"
| "err_of (Inr v) = None"

definition LockWithHint :: "faults \<Rightarrow> string \<Rightarrow> string \<Rightarrow> Hint \<Rightarrow> filesystem \<Rightarrow> error option \<times> filesystem" where
  "LockWithHint e InhibitDir snapName hint fs =
     (if length hint = 0 then (Some (ErrorString ''hint cannot be empty''), fs)
      else
        (case os_MkdirAll e InhibitDir 493 fs of
           (Some err, fs1) \<Rightarrow> (Some err, fs1)
         | (None, fs1) \<Rightarrow>
             (case openHintFile e InhibitDir snapName fs1 of
                (Inl err, fs2) \<Rightarrow> (Some err, fs2)
              | (Inr flock, fs2) \<Rightarrow>
                  (case FileLock_Lock e flock of
                     Some err \<Rightarrow> (Some err, FileLock_Close flock fs2)
                   | None \<Rightarrow>
                       let f = FileLock_File flock in
                       (case File_Truncate e f 0 fs2 of
                          (Some err, fs3) \<Rightarrow> (Some err, FileLock_Close flock fs3)
                        | (None, fs3) \<Rightarrow>
                            (case File_WriteString e f hint fs3 of
                               ((n, err), fs4) \<Rightarrow> (err, FileLock_Close flock fs4)))))))"

definition Unlock :: "faults \<Rightarrow> string \<Rightarrow> string \<Rightarrow> filesystem \<Rightarrow> error option \<times> filesystem" where
  "Unlock e InhibitDir snapName fs =
     (case openHintFile e InhibitDir snapName fs of
        (res, fs1) \<Rightarrow>
          if os_IsNotExist (err_of res) then (None, fs1)
          else
            (case res of
               Inl err \<Rightarrow> (Some err, fs1)
             | Inr flock \<Rightarrow>
                 (case FileLock_Lock e flock of
                    Some err \<Rightarrow> (Some err, FileLock_Close flock fs1)
                  | None \<Rightarrow>
                      let f = FileLock_File flock in
                      (case File_Truncate e f 0 fs1 of
                         (err, fs2) \<Rightarrow> (err, FileLock_Close flock fs2)))))"

definition IsLocked :: "faults \<Rightarrow> string \<Rightarrow> string \<Rightarrow> filesystem \<Rightarrow> (Hint \<times> error option) \<times> filesystem" where
  "IsLocked e InhibitDir snapName fs =
     (case openHintFile e InhibitDir snapName fs of
        (res, fs1) \<Rightarrow>
          if os_IsNotExist (err_of res) then (([], None), fs1)
          else
            (case res of
               Inl err \<Rightarrow> (([], Some err), fs1)
             | Inr flock \<Rightarrow>
                 (case FileLock_ReadLock e flock of
                    Some err \<Rightarrow> (([], Some err), FileLock_Close flock fs1)
                  | None \<Rightarrow>
                      let f = FileLock_File flock in
                      (case File_Stat e f fs1 of
                         Inl err \<Rightarrow> (([], Some err), FileLock_Close flock fs1)
                       | Inr sz \<Rightarrow>
                           if sz = 0 then (([], None), FileLock_Close flock fs1)
                           else
                             (case File_Read e f (replicate sz (CHR 0x00)) fs1 of
                                ((n, err), buf) \<Rightarrow>
                                  if n = length (replicate sz (CHR 0x00))
                                  then ((buf, None), FileLock_Close flock fs1)
                                  else (([], err), FileLock_Close flock fs1))))))"

text \<open>The path under which the file system holds the hint of a snap.\<close>

definition hintPath :: "string \<Rightarrow> string \<Rightarrow> string" where
  "hintPath InhibitDir snapName = filepath_Clean (filepath_Join InhibitDir (snapName @ ''.lock''))"

subsection \<open>File systems used as examples\<close>

text \<open>
  Nothing exists; the inhibit directory exists and is empty; one hint is set; one hint
  file is there and empty.
\<close>

definition empty_fs :: filesystem where
  "empty_fs = \<lparr>dirs = {}, files = Map.empty\<rparr>"

definition inhibit_dir_fs :: filesystem where
  "inhibit_dir_fs = \<lparr>dirs = set (ancestors defaultInhibitDir), files = Map.empty\<rparr>"

definition refresh_fs :: filesystem where
  "refresh_fs = \<lparr>dirs = set (ancestors defaultInhibitDir),
     files = [''/var/lib/snapd/inhibit/pkg-a.lock'' \<mapsto> ''refresh'']\<rparr>"

definition emptied_fs :: filesystem where
  "emptied_fs = \<lparr>dirs = set (ancestors defaultInhibitDir),
     files = [''/var/lib/snapd/inhibit/pkg-a.lock'' \<mapsto> []]\<rparr>"

section \<open>Properties\<close>

subsection \<open>What each operation does to the hint file\<close>

lemma openHintFile_cases:
  "openHintFile e D r fs =
     (case open_fault e of
        Some x \<Rightarrow> (Inl (PathError ''open'' (filepath_Join D (r @ ''.lock'')) (Failure x)), fs)
      | None \<Rightarrow>
          (case files fs (hintPath D r) of
             Some content \<Rightarrow> (Inr (FileLock (File (hintPath D r))), fs)
           | None \<Rightarrow>
               if is_dir fs (parent_dir (hintPath D r))
               then (Inr (FileLock (File (hintPath D r))),
                     fs\<lparr>files := (files fs)(hintPath D r \<mapsto> [])\<rparr>)
               else (Inl (PathError ''open'' (filepath_Join D (r @ ''.lock'')) ENOENT), fs)))"
  by (simp add: openHintFile_def osutil_NewFileLockWithMode_def hintPath_def Let_def
      split: option.splits)

lemma LockWithHint_stores:
  assumes "hint \<noteq> []" and "fst (LockWithHint e D r hint fs) = None"
  shows "files (snd (LockWithHint e D r hint fs)) (hintPath D r) = Some hint"
  using assms
  by (auto simp add: LockWithHint_def openHintFile_cases os_MkdirAll_def FileLock_Lock_def
      File_Truncate_def File_WriteString_def FileLock_Close_def write_at_start_def Let_def
      split: option.splits if_splits prod.splits sum.splits)

lemma IsLocked_reads:
  assumes "files fs (hintPath D r) = Some c" and "fault_free e"
  shows "IsLocked e D r fs = ((c, None), fs)"
  using assms
  by (auto simp add: IsLocked_def openHintFile_cases fault_free_def FileLock_ReadLock_def
      File_Stat_def File_Read_def FileLock_Close_def Let_def
      split: option.splits if_splits prod.splits sum.splits)

lemma IsLocked_missing:
  assumes "files fs (hintPath D r) = None" and "fault_free e"
  shows "fst (IsLocked e D r fs) = ([], None)"
  using assms
  by (auto simp add: IsLocked_def openHintFile_cases fault_free_def FileLock_ReadLock_def
      File_Stat_def File_Read_def FileLock_Close_def Let_def
      split: option.splits if_splits prod.splits sum.splits)

lemma Unlock_truncates:
  assumes "files fs (hintPath D r) = Some c" and "fst (Unlock e D r fs) = None"
  shows "files (snd (Unlock e D r fs)) (hintPath D r) = Some []"
  using assms
  by (auto simp add: Unlock_def openHintFile_cases FileLock_Lock_def
      File_Truncate_def FileLock_Close_def Let_def
      split: option.splits if_splits prod.splits sum.splits)

lemma fault_free_no_faults: "fault_free no_faults"
  by (simp add: fault_free_def no_faults_def)

subsection \<open>Setting a hint and reading it back\<close>

text \<open>
  C1. For every snap name and every non-empty hint: when \<open>LockWithHint\<close> has returned
  no error, an \<open>IsLocked\<close> for the same name that runs next, with system calls that
  do not fail, returns that hint, byte for byte, and no error.
\<close>

theorem LockWithHint_IsLocked_roundtrip:
  assumes "hint \<noteq> []"
    and "fst (LockWithHint e D r hint fs) = None"
    and "fault_free e'"
  shows "fst (IsLocked e' D r (snd (LockWithHint e D r hint fs))) = (hint, None)"
  using IsLocked_reads [OF LockWithHint_stores [OF assms(1,2)] assms(3)] by simp

theorem LockWithHint_IsLocked_roundtrip_witness:
  "HintInhibitedForRefresh \<noteq> [] \<and>
   fst (LockWithHint no_faults defaultInhibitDir ''pkg-a'' HintInhibitedForRefresh empty_fs) = None \<and>
   fault_free no_faults \<and>
   fst (IsLocked no_faults defaultInhibitDir ''pkg-a''
         (snd (LockWithHint no_faults defaultInhibitDir ''pkg-a'' HintInhibitedForRefresh empty_fs)))
     = (''refresh'', None)"
proof -
  have h1: "HintInhibitedForRefresh \<noteq> []"
    by (simp add: HintInhibitedForRefresh_def)
  have h2: "fst (LockWithHint no_faults defaultInhibitDir ''pkg-a'' HintInhibitedForRefresh empty_fs) = None"
    by code_simp
  have h3: "fault_free no_faults"
    by (rule fault_free_no_faults)
  show ?thesis
    using LockWithHint_IsLocked_roundtrip [OF h1 h2 h3] h1 h2 h3
    by (simp add: HintInhibitedForRefresh_def)
qed

subsection \<open>Short reads\<close>

text \<open>
  A hint that \<open>IsLocked\<close> returns is never a part of the file: a non-empty result is
  the whole content, and comes with no error.
\<close>

lemma IsLocked_hint_is_whole_file:
  assumes "fst (fst (IsLocked e D r fs)) \<noteq> []"
  shows "files fs (hintPath D r) = Some (fst (fst (IsLocked e D r fs))) \<and>
         snd (fst (IsLocked e D r fs)) = None"
  using assms
  by (auto simp add: IsLocked_def openHintFile_cases FileLock_ReadLock_def
      File_Stat_def File_Read_def FileLock_Close_def Let_def
      split: option.splits if_splits prod.splits sum.splits)

text \<open>
  A read that stops early without an error of its own leaves \<open>err\<close> at \<open>nil\<close>, and
  that \<open>nil\<close> is what \<open>IsLocked\<close> returns with the empty hint.
\<close>

lemma IsLocked_short_read:
  assumes "files fs (hintPath D r) = Some c"
    and "open_fault e = None" and "flock_fault e = None" and "stat_fault e = None"
    and "read_fault e = None" and "read_max e = Some k" and "0 < k" and "k < length c"
  shows "fst (IsLocked e D r fs) = ([], None)"
  using assms
  by (auto simp add: IsLocked_def openHintFile_cases FileLock_ReadLock_def
      File_Stat_def File_Read_def FileLock_Close_def Let_def
      split: option.splits if_splits prod.splits sum.splits)

text \<open>
  C2. The claim is that \<open>IsLocked\<close> returns an error whenever the number of bytes read
  differs from the size that \<open>Stat\<close> reported. The code does not: the hint file of
  \<open>pkg-a\<close> holds the 7 bytes of \<open>refresh\<close>, \<open>Stat\<close> reports 7, the read returns 3
  bytes and no error, and \<open>IsLocked\<close> returns the empty hint with a \<open>nil\<close> error.
\<close>

theorem IsLocked_short_read_without_error:
  "File_Stat (no_faults\<lparr>read_max := Some 3\<rparr>) (File ''/var/lib/snapd/inhibit/pkg-a.lock'') refresh_fs = Inr 7 \<and>
   fst (File_Read (no_faults\<lparr>read_max := Some 3\<rparr>) (File ''/var/lib/snapd/inhibit/pkg-a.lock'')
          (replicate 7 (CHR 0x00)) refresh_fs) = (3, None) \<and>
   fst (IsLocked (no_faults\<lparr>read_max := Some 3\<rparr>) defaultInhibitDir ''pkg-a'' refresh_fs) = ([], None)"
  by code_simp

subsection \<open>What reading changes\<close>

text \<open>
  C3, as amended. \<open>IsLocked\<close> changes the file system only through the open that it
  shares with the other two operations: it never makes a directory, and never
  truncates or writes a file. Either nothing changes, or the hint file of the snap was
  missing in a directory that exists and is now there, empty.
\<close>

theorem IsLocked_changes_only_by_opening:
  "snd (IsLocked e D r fs) = snd (openHintFile e D r fs) \<and>
   (snd (IsLocked e D r fs) = fs \<or>
    files fs (hintPath D r) = None \<and> is_dir fs (parent_dir (hintPath D r)) \<and>
    snd (IsLocked e D r fs) = fs\<lparr>files := (files fs)(hintPath D r \<mapsto> [])\<rparr>)"
  by (auto simp add: IsLocked_def openHintFile_cases FileLock_Close_def Let_def
      split: option.splits if_splits prod.splits sum.splits)

text \<open>
  C3 as it was stated fails: with the inhibit directory in place and no hint file for
  \<open>pkg-a\<close>, a call of \<open>IsLocked\<close> creates the file.
\<close>

theorem IsLocked_creates_missing_file:
  "files inhibit_dir_fs (hintPath defaultInhibitDir ''pkg-a'') = None \<and>
   files (snd (IsLocked no_faults defaultInhibitDir ''pkg-a'' inhibit_dir_fs))
     (hintPath defaultInhibitDir ''pkg-a'') = Some [] \<and>
   snd (IsLocked no_faults defaultInhibitDir ''pkg-a'' inhibit_dir_fs) \<noteq> inhibit_dir_fs"
proof -
  have a: "files inhibit_dir_fs (hintPath defaultInhibitDir ''pkg-a'') = None"
    by (simp add: inhibit_dir_fs_def)
  have b: "files (snd (IsLocked no_faults defaultInhibitDir ''pkg-a'' inhibit_dir_fs))
     (hintPath defaultInhibitDir ''pkg-a'') = Some []"
    by code_simp
  from a b have "snd (IsLocked no_faults defaultInhibitDir ''pkg-a'' inhibit_dir_fs) \<noteq> inhibit_dir_fs"
    by auto
  with a b show ?thesis by blast
qed

subsection \<open>The empty hint\<close>

text \<open>
  C4. For every snap name, \<open>LockWithHint\<close> with the empty hint returns the error
  \<open>hint cannot be empty\<close>, which is made by \<open>fmt.Errorf\<close> and not by a system call,
  and returns the file system as it was: no directory and no file is made or changed.
  So an \<open>IsLocked\<close> that follows gives what it would have given before, and for a snap
  whose hint was never set that is the empty hint and no error.
\<close>

theorem LockWithHint_empty_hint_rejected:
  "LockWithHint e D r [] fs = (Some (ErrorString ''hint cannot be empty''), fs) \<and>
   IsLocked e' D r (snd (LockWithHint e D r [] fs)) = IsLocked e' D r fs \<and>
   (fault_free e' \<and> files fs (hintPath D r) = None \<longrightarrow>
      fst (IsLocked e' D r (snd (LockWithHint e D r [] fs))) = (HintNotInhibited, None))"
  by (simp add: LockWithHint_def IsLocked_missing HintNotInhibited_def)

theorem LockWithHint_empty_hint_rejected_witness:
  "LockWithHint no_faults defaultInhibitDir ''pkg-b'' [] empty_fs
     = (Some (ErrorString ''hint cannot be empty''), empty_fs) \<and>
   fault_free no_faults \<and> files empty_fs (hintPath defaultInhibitDir ''pkg-b'') = None \<and>
   fst (IsLocked no_faults defaultInhibitDir ''pkg-b''
         (snd (LockWithHint no_faults defaultInhibitDir ''pkg-b'' [] empty_fs))) = ([], None)"
proof -
  have h: "fault_free no_faults \<and> files empty_fs (hintPath defaultInhibitDir ''pkg-b'') = None"
    by (simp add: fault_free_no_faults empty_fs_def)
  show ?thesis
    using LockWithHint_empty_hint_rejected [of no_faults defaultInhibitDir "''pkg-b''" empty_fs no_faults] h
    unfolding HintNotInhibited_def by blast
qed

subsection \<open>Clearing a hint\<close>

text \<open>
  C5. For every snap name and every non-empty hint: when \<open>LockWithHint\<close> has returned
  no error and the \<open>Unlock\<close> after it has returned no error, an \<open>IsLocked\<close> that runs
  next, with system calls that do not fail, returns \<open>HintNotInhibited\<close> and no error.
\<close>

theorem LockWithHint_Unlock_IsLocked:
  assumes "hint \<noteq> []"
    and "fst (LockWithHint e1 D r hint fs) = None"
    and "fst (Unlock e2 D r (snd (LockWithHint e1 D r hint fs))) = None"
    and "fault_free e3"
  shows "fst (IsLocked e3 D r (snd (Unlock e2 D r (snd (LockWithHint e1 D r hint fs)))))
           = (HintNotInhibited, None)"
  using IsLocked_reads [OF Unlock_truncates [OF LockWithHint_stores [OF assms(1,2)] assms(3)] assms(4)]
  by (simp add: HintNotInhibited_def)

theorem LockWithHint_Unlock_IsLocked_witness:
  "HintInhibitedForRefresh \<noteq> [] \<and>
   fst (LockWithHint no_faults defaultInhibitDir ''pkg-a'' HintInhibitedForRefresh empty_fs) = None \<and>
   fst (Unlock no_faults defaultInhibitDir ''pkg-a''
         (snd (LockWithHint no_faults defaultInhibitDir ''pkg-a'' HintInhibitedForRefresh empty_fs))) = None \<and>
   fault_free no_faults \<and>
   fst (IsLocked no_faults defaultInhibitDir ''pkg-a''
         (snd (Unlock no_faults defaultInhibitDir ''pkg-a''
           (snd (LockWithHint no_faults defaultInhibitDir ''pkg-a'' HintInhibitedForRefresh empty_fs)))))
     = ([], None)"
proof -
  have h1: "HintInhibitedForRefresh \<noteq> []"
    by (simp add: HintInhibitedForRefresh_def)
  have h2: "fst (LockWithHint no_faults defaultInhibitDir ''pkg-a'' HintInhibitedForRefresh empty_fs) = None"
    by code_simp
  have h3: "fst (Unlock no_faults defaultInhibitDir ''pkg-a''
         (snd (LockWithHint no_faults defaultInhibitDir ''pkg-a'' HintInhibitedForRefresh empty_fs))) = None"
    by code_simp
  have h4: "fault_free no_faults"
    by (rule fault_free_no_faults)
  show ?thesis
    using LockWithHint_Unlock_IsLocked [OF h1 h2 h3 h4] h1 h2 h3 h4
    by (simp add: HintNotInhibited_def)
qed

subsection \<open>Unlocking where no hint file exists\<close>

text \<open>
  C6, as amended. For every snap whose hint file does not exist: \<open>Unlock\<close> returns no
  error unless the open, the lock or the truncation reports a failure, and it never
  returns a not-found error. When the open reports not-found, which it does when the
  directory is missing, \<open>Unlock\<close> returns no error and changes nothing. Whenever the
  directory exists and the open does not fail, the open creates the hint file, and
  the file system after \<open>Unlock\<close>, whatever it returns, is the one before with that
  file added, empty: \<open>Unlock\<close> is not a no-op there. In every other case, a missing
  directory or a failed open, nothing changes. Either way an \<open>IsLocked\<close> that
  follows, with system calls that do not fail, returns \<open>HintNotInhibited\<close> and no
  error.
\<close>

theorem Unlock_missing_file:
  assumes "files fs (hintPath D r) = None"
  shows "(fault_free e \<longrightarrow> fst (Unlock e D r fs) = None) \<and>
         (fst (Unlock e D r fs) \<noteq> None \<longrightarrow>
            open_fault e \<noteq> None \<or> flock_fault e \<noteq> None \<or> truncate_fault e \<noteq> None) \<and>
         \<not> os_IsNotExist (fst (Unlock e D r fs)) \<and>
         (os_IsNotExist (err_of (fst (openHintFile e D r fs))) \<longrightarrow> Unlock e D r fs = (None, fs)) \<and>
         (snd (Unlock e D r fs) = fs \<or>
          is_dir fs (parent_dir (hintPath D r)) \<and>
          snd (Unlock e D r fs) = fs\<lparr>files := (files fs)(hintPath D r \<mapsto> [])\<rparr>) \<and>
         (is_dir fs (parent_dir (hintPath D r)) \<and> open_fault e = None \<longrightarrow>
            snd (Unlock e D r fs) = fs\<lparr>files := (files fs)(hintPath D r \<mapsto> [])\<rparr> \<and>
            files (snd (Unlock e D r fs)) (hintPath D r) = Some [] \<and>
            snd (Unlock e D r fs) \<noteq> fs) \<and>
         (\<not> is_dir fs (parent_dir (hintPath D r)) \<or> open_fault e \<noteq> None \<longrightarrow>
            snd (Unlock e D r fs) = fs) \<and>
         (fault_free e' \<longrightarrow>
            fst (IsLocked e' D r (snd (Unlock e D r fs))) = (HintNotInhibited, None))"
proof -
  have state: "snd (Unlock e D r fs) = fs \<or>
      is_dir fs (parent_dir (hintPath D r)) \<and>
      snd (Unlock e D r fs) = fs\<lparr>files := (files fs)(hintPath D r \<mapsto> [])\<rparr>"
    using assms
    by (auto simp add: Unlock_def openHintFile_cases FileLock_Lock_def
        File_Truncate_def FileLock_Close_def Let_def
        split: option.splits if_splits prod.splits sum.splits)
  have result: "(fault_free e \<longrightarrow> fst (Unlock e D r fs) = None) \<and>
      (fst (Unlock e D r fs) \<noteq> None \<longrightarrow>
         open_fault e \<noteq> None \<or> flock_fault e \<noteq> None \<or> truncate_fault e \<noteq> None) \<and>
      \<not> os_IsNotExist (fst (Unlock e D r fs)) \<and>
      (os_IsNotExist (err_of (fst (openHintFile e D r fs))) \<longrightarrow> Unlock e D r fs = (None, fs))"
    using assms
    by (auto simp add: Unlock_def openHintFile_cases FileLock_Lock_def fault_free_def
        File_Truncate_def FileLock_Close_def Let_def
        split: option.splits if_splits prod.splits sum.splits)
  have creates: "snd (Unlock e D r fs) = fs\<lparr>files := (files fs)(hintPath D r \<mapsto> [])\<rparr>"
    if "is_dir fs (parent_dir (hintPath D r))" and "open_fault e = None"
    using assms that
    by (auto simp add: Unlock_def openHintFile_cases FileLock_Lock_def
        File_Truncate_def FileLock_Close_def Let_def
        split: option.splits if_splits prod.splits sum.splits)
  have created: "files (snd (Unlock e D r fs)) (hintPath D r) = Some [] \<and> snd (Unlock e D r fs) \<noteq> fs"
    if "is_dir fs (parent_dir (hintPath D r))" and "open_fault e = None"
  proof -
    from creates [OF that]
    have "files (snd (Unlock e D r fs)) (hintPath D r) = Some []"
      by simp
    with assms show ?thesis by auto
  qed
  have untouched: "snd (Unlock e D r fs) = fs"
    if "\<not> is_dir fs (parent_dir (hintPath D r)) \<or> open_fault e \<noteq> None"
    using assms that
    by (auto simp add: Unlock_def openHintFile_cases FileLock_Lock_def
        File_Truncate_def FileLock_Close_def Let_def
        split: option.splits if_splits prod.splits sum.splits)
  have reads: "fst (IsLocked e' D r (snd (Unlock e D r fs))) = (HintNotInhibited, None)"
    if ok: "fault_free e'"
  proof -
    from state have "files (snd (Unlock e D r fs)) (hintPath D r) = None \<or>
        files (snd (Unlock e D r fs)) (hintPath D r) = Some []"
      using assms by auto
    then show ?thesis
      using IsLocked_missing [OF _ ok] IsLocked_reads [OF _ ok, of _ D r "[]"]
      by (auto simp add: HintNotInhibited_def)
  qed
  from state result creates created untouched reads show ?thesis by blast
qed

theorem Unlock_missing_file_witness:
  "files empty_fs (hintPath defaultInhibitDir ''pkg-never-created'') = None \<and>
   fault_free no_faults \<and>
   os_IsNotExist (err_of (fst (openHintFile no_faults defaultInhibitDir ''pkg-never-created'' empty_fs))) \<and>
   Unlock no_faults defaultInhibitDir ''pkg-never-created'' empty_fs = (None, empty_fs) \<and>
   files inhibit_dir_fs (hintPath defaultInhibitDir ''pkg-never-created'') = None \<and>
   fst (Unlock (no_faults\<lparr>flock_fault := Some ENOLCK\<rparr>) defaultInhibitDir ''pkg-never-created'' inhibit_dir_fs) \<noteq> None \<and>
   flock_fault (no_faults\<lparr>flock_fault := Some ENOLCK\<rparr>) \<noteq> None \<and>
   is_dir inhibit_dir_fs (parent_dir (hintPath defaultInhibitDir ''pkg-never-created'')) \<and>
   open_fault no_faults = None \<and>
   snd (Unlock no_faults defaultInhibitDir ''pkg-never-created'' inhibit_dir_fs)
     = inhibit_dir_fs\<lparr>files := (files inhibit_dir_fs)(hintPath defaultInhibitDir ''pkg-never-created'' \<mapsto> [])\<rparr> \<and>
   \<not> is_dir empty_fs (parent_dir (hintPath defaultInhibitDir ''pkg-never-created'')) \<and>
   snd (Unlock no_faults defaultInhibitDir ''pkg-never-created'' empty_fs) = empty_fs \<and>
   fst (IsLocked no_faults defaultInhibitDir ''pkg-never-created''
         (snd (Unlock no_faults defaultInhibitDir ''pkg-never-created'' inhibit_dir_fs))) = ([], None)"
proof -
  have a: "files empty_fs (hintPath defaultInhibitDir ''pkg-never-created'') = None"
    by (simp add: empty_fs_def)
  have b: "os_IsNotExist (err_of (fst (openHintFile no_faults defaultInhibitDir ''pkg-never-created'' empty_fs)))"
    by code_simp
  have c: "files inhibit_dir_fs (hintPath defaultInhibitDir ''pkg-never-created'') = None"
    by (simp add: inhibit_dir_fs_def)
  have d: "fst (Unlock (no_faults\<lparr>flock_fault := Some ENOLCK\<rparr>) defaultInhibitDir ''pkg-never-created'' inhibit_dir_fs) \<noteq> None"
    by code_simp
  have e: "flock_fault (no_faults\<lparr>flock_fault := Some ENOLCK\<rparr>) \<noteq> None"
    by simp
  have f: "is_dir inhibit_dir_fs (parent_dir (hintPath defaultInhibitDir ''pkg-never-created''))"
    by code_simp
  have g: "open_fault no_faults = None"
    by (simp add: no_faults_def)
  have h: "\<not> is_dir empty_fs (parent_dir (hintPath defaultInhibitDir ''pkg-never-created''))"
    by code_simp
  show ?thesis
    using Unlock_missing_file [OF a, of no_faults no_faults]
      Unlock_missing_file [OF c, of "no_faults\<lparr>flock_fault := Some ENOLCK\<rparr>" no_faults]
      Unlock_missing_file [OF c, of no_faults no_faults]
      a b c d e f g h fault_free_no_faults
    unfolding HintNotInhibited_def by blast
qed

text \<open>
  C6 as it was stated fails where it calls the operation a no-op: with the inhibit
  directory in place and no hint file for \<open>pkg-never-created\<close>, \<open>Unlock\<close> returns no
  error and leaves a new, empty hint file behind.
\<close>

theorem Unlock_creates_missing_file:
  "files inhibit_dir_fs (hintPath defaultInhibitDir ''pkg-never-created'') = None \<and>
   fst (Unlock no_faults defaultInhibitDir ''pkg-never-created'' inhibit_dir_fs) = None \<and>
   files (snd (Unlock no_faults defaultInhibitDir ''pkg-never-created'' inhibit_dir_fs))
     (hintPath defaultInhibitDir ''pkg-never-created'') = Some [] \<and>
   snd (Unlock no_faults defaultInhibitDir ''pkg-never-created'' inhibit_dir_fs) \<noteq> inhibit_dir_fs"
proof -
  have a: "files inhibit_dir_fs (hintPath defaultInhibitDir ''pkg-never-created'') = None"
    by (simp add: inhibit_dir_fs_def)
  have b: "fst (Unlock no_faults defaultInhibitDir ''pkg-never-created'' inhibit_dir_fs) = None"
    by code_simp
  have c: "files (snd (Unlock no_faults defaultInhibitDir ''pkg-never-created'' inhibit_dir_fs))
     (hintPath defaultInhibitDir ''pkg-never-created'') = Some []"
    by code_simp
  from a c have "snd (Unlock no_faults defaultInhibitDir ''pkg-never-created'' inhibit_dir_fs) \<noteq> inhibit_dir_fs"
    by auto
  with a b c show ?thesis by blast
qed

subsection \<open>A missing file and an empty file read alike\<close>

text \<open>
  C7. For every snap name, \<open>IsLocked\<close> with system calls that do not fail returns the
  empty hint and no error both when the hint file does not exist and when it exists
  with size zero.
\<close>

theorem IsLocked_missing_or_empty:
  assumes "fault_free e"
    and "files fs (hintPath D r) = None \<or> files fs (hintPath D r) = Some []"
  shows "fst (IsLocked e D r fs) = (HintNotInhibited, None)"
  using assms IsLocked_missing [of fs D r e] IsLocked_reads [of fs D r "[]" e]
  by (auto simp add: HintNotInhibited_def)

theorem IsLocked_missing_or_empty_witness:
  "fault_free no_faults \<and>
   files empty_fs (hintPath defaultInhibitDir ''pkg-a'') = None \<and>
   fst (IsLocked no_faults defaultInhibitDir ''pkg-a'' empty_fs) = ([], None) \<and>
   files inhibit_dir_fs (hintPath defaultInhibitDir ''pkg-a'') = None \<and>
   fst (IsLocked no_faults defaultInhibitDir ''pkg-a'' inhibit_dir_fs) = ([], None) \<and>
   files emptied_fs (hintPath defaultInhibitDir ''pkg-a'') = Some [] \<and>
   fst (IsLocked no_faults defaultInhibitDir ''pkg-a'' emptied_fs) = ([], None)"
proof -
  have h0: "fault_free no_faults"
    by (rule fault_free_no_faults)
  have h1: "files empty_fs (hintPath defaultInhibitDir ''pkg-a'') = None"
    by (simp add: empty_fs_def)
  have h2: "files inhibit_dir_fs (hintPath defaultInhibitDir ''pkg-a'') = None"
    by (simp add: inhibit_dir_fs_def)
  have h3: "files emptied_fs (hintPath defaultInhibitDir ''pkg-a'') = Some []"
    by code_simp
  show ?thesis
    using IsLocked_missing_or_empty [OF h0 disjI1 [OF h1]]
      IsLocked_missing_or_empty [OF h0 disjI1 [OF h2]]
      IsLocked_missing_or_empty [OF h0 disjI2 [OF h3]] h0 h1 h2 h3
    by (simp add: HintNotInhibited_def)
qed

subsection \<open>Unlocking keeps the file\<close>

text \<open>
  C8. \<open>Unlock\<close> on a hint file that exists never removes it: whatever happens, the
  file is still there afterwards, with its old content or empty. When \<open>Unlock\<close>
  returns no error the file exists with size zero, and with system calls that do not
  fail \<open>Unlock\<close> does return no error.
\<close>

theorem Unlock_keeps_file:
  assumes "files fs (hintPath D r) = Some c"
  shows "(files (snd (Unlock e D r fs)) (hintPath D r) = Some c \<or>
          files (snd (Unlock e D r fs)) (hintPath D r) = Some []) \<and>
         (fst (Unlock e D r fs) = None \<longrightarrow> files (snd (Unlock e D r fs)) (hintPath D r) = Some []) \<and>
         (fault_free e \<longrightarrow> fst (Unlock e D r fs) = None)"
  using assms
  by (auto simp add: Unlock_def openHintFile_cases FileLock_Lock_def fault_free_def
      File_Truncate_def FileLock_Close_def Let_def
      split: option.splits if_splits prod.splits sum.splits)

theorem Unlock_keeps_file_witness:
  "files refresh_fs (hintPath defaultInhibitDir ''pkg-a'') = Some ''refresh'' \<and>
   fault_free no_faults \<and>
   fst (Unlock no_faults defaultInhibitDir ''pkg-a'' refresh_fs) = None \<and>
   files (snd (Unlock no_faults defaultInhibitDir ''pkg-a'' refresh_fs))
     (hintPath defaultInhibitDir ''pkg-a'') = Some []"
proof -
  have h: "files refresh_fs (hintPath defaultInhibitDir ''pkg-a'') = Some ''refresh''"
    by code_simp
  show ?thesis
    using Unlock_keeps_file [OF h, of no_faults] h fault_free_no_faults by simp
qed

subsection \<open>Errors come with the empty hint\<close>

text \<open>
  C10. For every snap name, whenever \<open>IsLocked\<close> returns an error, the hint it
  returns with it is \<open>HintNotInhibited\<close>, the empty string.
\<close>

theorem IsLocked_error_has_empty_hint:
  "snd (fst (IsLocked e D r fs)) \<noteq> None \<Longrightarrow> fst (fst (IsLocked e D r fs)) = HintNotInhibited"
  by (auto simp add: IsLocked_def HintNotInhibited_def Let_def
      split: option.splits if_splits prod.splits sum.splits)

theorem IsLocked_error_has_empty_hint_witness:
  "snd (fst (IsLocked (no_faults\<lparr>read_fault := Some EIO\<rparr>) defaultInhibitDir ''pkg-a'' refresh_fs)) \<noteq> None \<and>
   fst (fst (IsLocked (no_faults\<lparr>read_fault := Some EIO\<rparr>) defaultInhibitDir ''pkg-a'' refresh_fs)) = []"
proof -
  have h: "snd (fst (IsLocked (no_faults\<lparr>read_fault := Some EIO\<rparr>) defaultInhibitDir ''pkg-a'' refresh_fs)) \<noteq> None"
    by code_simp
  show ?thesis
    using IsLocked_error_has_empty_hint [OF h] h by (simp add: HintNotInhibited_def)
qed

end
